theory Spec2Isabelle
  imports Complex_Main "HOL-Library.Sublist" "HOL-Library.Multiset"
begin

section \<open>Python strings\<close>

text \<open>
  A Python \<open>str\<close> is a \<open>string\<close> (a list of characters). The texts handled by the two
  scripts are treated as ASCII: \<open>lower\<close> maps the letters A to Z to a to z and leaves
  every other character as it is, which is what \<open>str.lower()\<close> does on ASCII text.
\<close>

definition lower_char :: "char \<Rightarrow> char" where
  "lower_char c =
     (case map_of (zip ''ABCDEFGHIJKLMNOPQRSTUVWXYZ'' ''abcdefghijklmnopqrstuvwxyz'') c of
        None \<Rightarrow> c
      | Some l \<Rightarrow> l)"

definition lower :: "string \<Rightarrow> string" where
  "lower s = map lower_char s"

text \<open>
  \<open>w in t\<close> on strings is substring containment: \<open>w\<close> is a prefix of \<open>t\<close> or occurs in its
  tail. The empty string is contained in every string.
\<close>

fun contains :: "string \<Rightarrow> string \<Rightarrow> bool" where
  "contains w [] = (w = [])"
| "contains w (c # cs) = (prefix w (c # cs) \<or> contains w cs)"

text \<open>
  \<open>s.split()\<close> without arguments cuts \<open>s\<close> at runs of whitespace and returns no empty
  token. The whitespace characters of an ASCII \<open>str\<close> are the codes 9 to 13 and 28 to 32.
\<close>

definition is_space :: "char \<Rightarrow> bool" where
  "is_space c = (let n = (of_char c :: nat) in (9 \<le> n \<and> n \<le> 13) \<or> (28 \<le> n \<and> n \<le> 32))"

fun split_from :: "string \<Rightarrow> string \<Rightarrow> string list" where
  "split_from cur [] = (if cur = [] then [] else [cur])"
| "split_from cur (c # cs) =
     (if is_space c then (if cur = [] then split_from [] cs else cur # split_from [] cs)
      else split_from (cur @ [c]) cs)"

definition split :: "string \<Rightarrow> string list" where
  "split s = split_from [] s"

text \<open>\<open>any(word in text for word in words)\<close>.\<close>

definition any_in :: "string list \<Rightarrow> string \<Rightarrow> bool" where
  "any_in words text = list_ex (\<lambda>word. contains word text) words"

section \<open>fact-checker.py\<close>

subsection \<open>Cue lists\<close>

definition SUSPICIOUS_WORDS :: "string list" where
  "SUSPICIOUS_WORDS =
     [''viral'', ''shocking'', ''you won'' @ [CHR 0x27] @ ''t believe'', ''doctors hate'', ''secret'']"

definition confirm_words :: "string list" where
  "confirm_words = [''confirmed'', ''true'', ''yes'', ''indeed'', ''announced'', ''official'']"

definition deny_words :: "string list" where
  "deny_words = [''false'', ''fake'', ''rumor'', ''not true'', ''denied'', ''debunked'']"

subsection \<open>analyze_sentiment\<close>

text \<open>
  The three local counters of \<open>analyze_sentiment\<close>. Python integers are unbounded, so
  each is an \<open>int\<close>.
\<close>

record signals =
  confirm_signals :: int
  deny_signals :: int
  total_mentions :: int

definition no_signals :: signals where
  "no_signals = \<lparr>confirm_signals = 0, deny_signals = 0, total_mentions = 0\<rparr>"

text \<open>\<open>any(kw in text_lower for kw in claim_keywords)\<close>, with \<open>claim_keywords\<close> a set.\<close>

definition mentions :: "string set \<Rightarrow> string \<Rightarrow> bool" where
  "mentions claim_keywords text_lower = (\<exists>kw\<in>claim_keywords. contains kw text_lower)"

text \<open>One pass of the body of \<open>for text in texts\<close> (lines 147 to 164).\<close>

definition sentiment_step :: "string set \<Rightarrow> signals \<Rightarrow> string \<Rightarrow> signals" where
  "sentiment_step claim_keywords acc text =
     (let text_lower = lower text in
      if mentions claim_keywords text_lower then
        let a1 = acc\<lparr>total_mentions := total_mentions acc + 1\<rparr>;
            a2 = (if any_in confirm_words text_lower
                  then a1\<lparr>confirm_signals := confirm_signals a1 + 2\<rparr> else a1);
            a3 = (if any_in deny_words text_lower
                  then a2\<lparr>deny_signals := deny_signals a2 + 2\<rparr> else a2);
            a4 = (if any_in SUSPICIOUS_WORDS text_lower
                  then a3\<lparr>deny_signals := deny_signals a3 + 1\<rparr> else a3)
        in a4
      else acc)"

definition claim_keywords_of :: "string \<Rightarrow> string set" where
  "claim_keywords_of claim = set (split (lower claim))"

text \<open>The counters when the loop over \<open>texts\<close> has ended.\<close>

definition count_signals :: "string list \<Rightarrow> string \<Rightarrow> signals" where
  "count_signals texts claim = foldl (sentiment_step (claim_keywords_of claim)) no_signals texts"

text \<open>
  The verdict is one of the strings \<open>true\<close>, \<open>false\<close>, \<open>partially_true\<close> and
  \<open>unverified\<close>. The confidence is a Python float; it is modelled as a real number, so
  the quotient of the two counters is exact.
\<close>

definition analyze_sentiment :: "string list \<Rightarrow> string \<Rightarrow> string \<times> real" where
  "analyze_sentiment texts claim =
     (let acc = count_signals texts claim;
          confirm = confirm_signals acc;
          deny = deny_signals acc;
          total = total_mentions acc
      in if total = 0 then (''unverified'', 0)
         else if confirm > deny * 2 then (''true'', min (of_int confirm / of_int total) 1)
         else if deny > confirm * 2 then (''false'', min (of_int deny / of_int total) 1)
         else if confirm > 0 \<or> deny > 0 then (''partially_true'', 1 / 2)
         else (''unverified'', 3 / 10))"

subsection \<open>find_contradictions\<close>

text \<open>
  A source is the dictionary built by the search functions. Only its \<open>title\<close> and
  \<open>text\<close> entries are read here, with \<open>get(key, '')\<close>; both hold strings.
\<close>

type_synonym source_dict = "string \<rightharpoonup> string"

definition dict_get :: "source_dict \<Rightarrow> string \<Rightarrow> string \<Rightarrow> string" where
  "dict_get d k dflt = (case d k of None \<Rightarrow> dflt | Some v \<Rightarrow> v)"

text \<open>The f-string \<open>title text\<close>, joined by one blank (lines 190 and 239).\<close>

definition title_text :: "source_dict \<Rightarrow> string" where
  "title_text s = dict_get s ''title'' [] @ '' '' @ dict_get s ''text'' []"

text \<open>The detector has cue lists of its own (lines 192 and 194).\<close>

definition detector_confirm_words :: "string list" where
  "detector_confirm_words = [''confirmed'', ''true'', ''announced'', ''official'']"

definition detector_deny_words :: "string list" where
  "detector_deny_words = [''false'', ''fake'', ''denied'', ''debunked'']"

record groups =
  confirm_sources :: "source_dict list"
  deny_sources :: "source_dict list"

definition group_step :: "groups \<Rightarrow> source_dict \<Rightarrow> groups" where
  "group_step g s =
     (let text = lower (title_text s) in
      if any_in detector_confirm_words text
        then g\<lparr>confirm_sources := confirm_sources g @ [s]\<rparr>
      else if any_in detector_deny_words text
        then g\<lparr>deny_sources := deny_sources g @ [s]\<rparr>
      else g)"

definition group_sources :: "source_dict list \<Rightarrow> groups" where
  "group_sources srcs = foldl group_step \<lparr>confirm_sources = [], deny_sources = []\<rparr> srcs"

record contradiction =
  ctype :: string
  confirm_count :: nat
  deny_count :: nat
  sample_confirm :: "source_dict option"
  sample_deny :: "source_dict option"

definition first_or_none :: "'a list \<Rightarrow> 'a option" where
  "first_or_none xs = (case xs of [] \<Rightarrow> None | x # _ \<Rightarrow> Some x)"

definition find_contradictions :: "source_dict list \<Rightarrow> string \<Rightarrow> contradiction list" where
  "find_contradictions srcs claim_text =
     (let g = group_sources srcs in
      if confirm_sources g \<noteq> [] \<and> deny_sources g \<noteq> [] then
        [\<lparr>ctype = ''conflicting_reports'',
          confirm_count = length (confirm_sources g),
          deny_count = length (deny_sources g),
          sample_confirm = first_or_none (confirm_sources g),
          sample_deny = first_or_none (deny_sources g)\<rparr>]
      else [])"

subsection \<open>generate_explanation and check\<close>

text \<open>
  The explanation is assembled from seven fixed f-strings (lines 213, 215, 219, 221, 224,
  227 and 254). Each is a fixed text with slots filled by numbers formatted as a
  percentage (\<open>:.0%\<close>). A piece of explanation is the template and the numbers put into
  its slots, in order; the explanation is the sequence of its pieces, and \<open>+=\<close> on the
  string adds a piece at the end.
\<close>

datatype template =
  Confirmed_high | Confirmed_low | Refuted_high | Refuted_low
  | Partially | Not_enough_data | Below_threshold

datatype fragment = Fragment template "real list"

definition generate_explanation ::
  "string \<Rightarrow> real \<Rightarrow> source_dict list \<Rightarrow> contradiction list \<Rightarrow> fragment list" where
  "generate_explanation v c srcs contras =
     (if v = ''true'' then
        (if c > 8 / 10 then [Fragment Confirmed_high [c]] else [Fragment Confirmed_low [c]])
      else if v = ''false'' then
        (if c > 8 / 10 then [Fragment Refuted_high [c]] else [Fragment Refuted_low [c]])
      else if v = ''partially_true'' then [Fragment Partially [c]]
      else [Fragment Not_enough_data [c]])"

record FactCheckResult =
  claim :: string
  verdict :: string
  confidence :: real
  sources :: "source_dict list"
  contradictions :: "contradiction list"
  explanation :: "fragment list"
  checked_at :: real

text \<open>
  \<open>check\<close> awaits \<open>search_for_claim\<close>, which talks to the network and catches every
  exception of its own; \<open>found\<close> is the list it returns and \<open>now\<close> the clock reading of
  \<open>datetime.now()\<close>. What \<open>check\<close> prints on the way is left out.
\<close>

definition check :: "source_dict list \<Rightarrow> real \<Rightarrow> string \<Rightarrow> real \<Rightarrow> FactCheckResult" where
  "check found now claim_text min_confidence =
     (let texts = map title_text found;
          (v, c) = analyze_sentiment texts claim_text;
          contras = find_contradictions found claim_text;
          expl = generate_explanation v c found contras;
          low = (c < min_confidence \<and> v \<in> set [''true'', ''false'']);
          v' = (if low then ''unverified'' else v);
          expl' = (if low then expl @ [Fragment Below_threshold [c, min_confidence]] else expl)
      in \<lparr>claim = claim_text, verdict = v', confidence = c, sources = take 5 found,
          contradictions = contras, explanation = expl', checked_at = now\<rparr>)"

section \<open>search-aggregator.py\<close>

text \<open>
  A \<open>datetime\<close> is its wall-clock reading, in seconds, and an optional time zone (the
  offset from UTC in seconds). \<open>replace(tzinfo=None)\<close> drops the zone and keeps the
  reading. The result of \<open>datetime.now()\<close> has no zone and is given as its reading.
\<close>

record datetime =
  wall :: real
  tzinfo :: "int option"

definition replace_tzinfo_none :: "datetime \<Rightarrow> datetime" where
  "replace_tzinfo_none d = d\<lparr>tzinfo := None\<rparr>"

text \<open>\<open>now - d\<close> for a \<open>d\<close> without zone: a \<open>timedelta\<close>, in seconds.\<close>

definition age :: "real \<Rightarrow> datetime \<Rightarrow> real" where
  "age now d = now - wall (replace_tzinfo_none d)"

record SearchResult =
  title :: string
  url :: string
  snippet :: string
  source :: string
  published_at :: "datetime option"
  score :: real
  sentiment :: string

subsection \<open>filter_by_freshness\<close>

definition freshness_map :: "string \<rightharpoonup> real" where
  "freshness_map =
     map_of [(''hour'', 3600), (''day'', 86400), (''week'', 604800), (''month'', 2592000)]"

definition freshness_delta :: "string \<Rightarrow> real" where
  "freshness_delta freshness = (case freshness_map freshness of None \<Rightarrow> 604800 | Some d \<Rightarrow> d)"

text \<open>A \<open>datetime\<close> is always true as a condition, \<open>None\<close> is false.\<close>

definition is_fresh :: "real \<Rightarrow> real \<Rightarrow> SearchResult \<Rightarrow> bool" where
  "is_fresh now delta r =
     (case published_at r of None \<Rightarrow> False | Some p \<Rightarrow> age now p \<le> delta)"

definition filter_by_freshness :: "real \<Rightarrow> SearchResult list \<Rightarrow> string \<Rightarrow> SearchResult list" where
  "filter_by_freshness now results freshness =
     filter (is_fresh now (freshness_delta freshness)) results"

subsection \<open>remove_duplicates\<close>

text \<open>
  \<open>re.sub(r'[^\w]', '', title.lower())\<close>: on ASCII text the word characters are the
  letters, the digits and the underscore.
\<close>

definition is_word_char :: "char \<Rightarrow> bool" where
  "is_word_char c =
     (let n = (of_char c :: nat) in
      (48 \<le> n \<and> n \<le> 57) \<or> (65 \<le> n \<and> n \<le> 90) \<or> n = 95 \<or> (97 \<le> n \<and> n \<le> 122))"

definition normalized_title :: "SearchResult \<Rightarrow> string" where
  "normalized_title r = filter is_word_char (lower (title r))"

fun dedup_loop ::
  "string set \<Rightarrow> string set \<Rightarrow> SearchResult list \<Rightarrow> SearchResult list \<Rightarrow> SearchResult list" where
  "dedup_loop seen_urls seen_titles unique [] = unique"
| "dedup_loop seen_urls seen_titles unique (r # rs) =
     (if url r \<in> seen_urls then dedup_loop seen_urls seen_titles unique rs
      else if normalized_title r \<in> seen_titles then dedup_loop seen_urls seen_titles unique rs
      else dedup_loop (insert (url r) seen_urls) (insert (normalized_title r) seen_titles)
             (unique @ [r]) rs)"

definition remove_duplicates :: "SearchResult list \<Rightarrow> SearchResult list" where
  "remove_duplicates results = dedup_loop {} {} [] results"

subsection \<open>rank_results\<close>

text \<open>
  The body of the scoring loop (lines 208 to 221); it stores the new score in the item.
  The items of the list are taken to be distinct objects, as the adapters build them, so
  each is rescored once.
\<close>

definition rescore :: "real \<Rightarrow> SearchResult \<Rightarrow> SearchResult" where
  "rescore now r =
     (let s0 = score r;
          s1 = (case published_at r of
                  None \<Rightarrow> s0
                | Some p \<Rightarrow> s0 + max 0 (1000000 - age now p) / 10000);
          s2 = (if snippet r \<noteq> [] \<and> length (snippet r) > 100 then s1 + 10 else s1)
      in r\<lparr>score := s2\<rparr>)"

text \<open>
  \<open>sorted(xs, key=k, reverse=True)\<close> is a stable sort in descending order of the key:
  items with equal keys stay in the order of the input. CPython reverses the list, sorts
  it in ascending order with a stable sort, and reverses the outcome.
\<close>

definition sorted_reverse :: "('a \<Rightarrow> real) \<Rightarrow> 'a list \<Rightarrow> 'a list" where
  "sorted_reverse k xs = rev (sort_key k (rev xs))"

definition rank_results :: "real \<Rightarrow> SearchResult list \<Rightarrow> SearchResult list" where
  "rank_results now results = sorted_reverse score (map (rescore now) results)"

subsection \<open>search\<close>

text \<open>
  What awaiting one adapter coroutine gives: the list it returns, or the exception it
  raises. \<open>asyncio.gather(*tasks, return_exceptions=True)\<close> returns these outcomes in the
  order of the tasks, an exception as a value.
\<close>

datatype failure = TimeoutError | ClientError | OtherError string

type_synonym outcome = "failure + SearchResult list"

record adapters =
  search_reddit :: outcome
  search_hackernews :: outcome
  search_arxiv :: outcome

text \<open>\<open>xs[:n]\<close>: a negative \<open>n\<close> counts from the end.\<close>

definition slice_to :: "int \<Rightarrow> 'a list \<Rightarrow> 'a list" where
  "slice_to n xs = (if 0 \<le> n then take (nat n) xs else take (length xs - nat (- n)) xs)"

definition gather_tasks :: "adapters \<Rightarrow> string list \<Rightarrow> outcome list" where
  "gather_tasks ad srcs =
     (if ''reddit'' \<in> set srcs then [search_reddit ad] else []) @
     (if ''hackernews'' \<in> set srcs then [search_hackernews ad] else []) @
     (if ''arxiv'' \<in> set srcs then [search_arxiv ad] else [])"

text \<open>\<open>if isinstance(result_list, list): all_results.extend(result_list)\<close>.\<close>

fun extend_lists :: "SearchResult list \<Rightarrow> outcome list \<Rightarrow> SearchResult list" where
  "extend_lists all_results [] = all_results"
| "extend_lists all_results (Inr result_list # rest) = extend_lists (all_results @ result_list) rest"
| "extend_lists all_results (Inl e # rest) = extend_lists all_results rest"

text \<open>
  \<open>filter_by_freshness\<close> and \<open>rank_results\<close> read the clock each for itself: \<open>now1\<close> and
  \<open>now2\<close> are the two readings.
\<close>

definition search ::
  "adapters \<Rightarrow> real \<Rightarrow> real \<Rightarrow> string list \<Rightarrow> string \<Rightarrow> int \<Rightarrow> SearchResult list" where
  "search ad now1 now2 srcs freshness top_n =
     (let results_lists = gather_tasks ad srcs;
          all_results = extend_lists [] results_lists;
          filtered = filter_by_freshness now1 all_results freshness;
          unique = remove_duplicates filtered;
          ranked = rank_results now2 unique
      in slice_to top_n ranked)"

section \<open>Notions used in the statements\<close>

subsection \<open>Verdict engine\<close>

text \<open>An evidence text is counted when its lower-case form contains a token of the claim.\<close>

definition counted :: "string \<Rightarrow> string \<Rightarrow> bool" where
  "counted claim_text text = mentions (claim_keywords_of claim_text) (lower text)"

text \<open>The points a cue list gives to one item: \<open>n\<close> if the condition holds, else nothing.\<close>

definition point :: "bool \<Rightarrow> int \<Rightarrow> int" where
  "point b n = (if b then n else 0)"

text \<open>
  The accumulation as the specification words it, for comparison with \<open>sentiment_step\<close>:
  two points for each confirming cue that matches, two for each denying cue that matches
  and one for each suspicious cue that matches.
\<close>

definition cue_matches :: "string list \<Rightarrow> string \<Rightarrow> nat" where
  "cue_matches words text = length (filter (\<lambda>word. contains word text) words)"

definition per_cue_step :: "string set \<Rightarrow> signals \<Rightarrow> string \<Rightarrow> signals" where
  "per_cue_step claim_keywords acc text =
     (let text_lower = lower text in
      if mentions claim_keywords text_lower then
        \<lparr>confirm_signals = confirm_signals acc + 2 * int (cue_matches confirm_words text_lower),
         deny_signals = deny_signals acc + 2 * int (cue_matches deny_words text_lower)
           + int (cue_matches SUSPICIOUS_WORDS text_lower),
         total_mentions = total_mentions acc + 1\<rparr>
      else acc)"

definition two_cue_text :: string where
  "two_cue_text = ''x confirmed official''"

definition not_true_text :: string where
  "not_true_text = ''It is NOT true that x''"

definition not_true_item :: source_dict where
  "not_true_item = [''title'' \<mapsto> ''x'', ''text'' \<mapsto> ''This is not true'']"

text \<open>Ten sources that mention the claim \<open>x\<close>, three of them with a confirming cue.\<close>

definition sixty_percent_sources :: "source_dict list" where
  "sixty_percent_sources =
     replicate 3 [''title'' \<mapsto> ''x confirmed''] @ replicate 7 [''title'' \<mapsto> ''x'']"

subsection \<open>Contradiction detector\<close>

text \<open>
  The classification as the specification words it: confirming if the item matches only
  confirming cues, denying if only denying cues, neutral if both or neither.
\<close>

datatype signal = Confirming | Denying | Neutral

definition spec_classify :: "source_dict \<Rightarrow> signal" where
  "spec_classify s =
     (let text = lower (title_text s);
          c = any_in detector_confirm_words text;
          d = any_in detector_deny_words text
      in if c \<and> \<not> d then Confirming else if d \<and> \<not> c then Denying else Neutral)"

definition both_cues_item :: source_dict where
  "both_cues_item = [''title'' \<mapsto> ''Confirmed'', ''text'' \<mapsto> ''it was false'']"

definition deny_only_item :: source_dict where
  "deny_only_item = [''title'' \<mapsto> ''Debunked'', ''text'' \<mapsto> ''x'']"

subsection \<open>Search aggregator\<close>

text \<open>
  The evidence one adapter contributes: its list, or nothing when it failed.
\<close>

fun evidence_of :: "outcome \<Rightarrow> SearchResult list" where
  "evidence_of (Inl e) = []"
| "evidence_of (Inr result_list) = result_list"

text \<open>
  A list on which the loop of \<open>remove_duplicates\<close>, started with the given sets of seen
  URLs and seen titles, skips nothing.
\<close>

fun unique_from :: "string set \<Rightarrow> string set \<Rightarrow> SearchResult list \<Rightarrow> bool" where
  "unique_from su st [] = True"
| "unique_from su st (r # rs) =
     (url r \<notin> su \<and> normalized_title r \<notin> st
      \<and> unique_from (insert (url r) su) (insert (normalized_title r) st) rs)"

text \<open>
  The order of the ranker as the specification words it, for comparison with
  \<open>rank_results\<close>: the higher score first; on equal scores the more recent
  \<open>published_at\<close> first; then the URLs in lexicographic order. Strings are compared
  character by character, by code.
\<close>

fun str_less :: "string \<Rightarrow> string \<Rightarrow> bool" where
  "str_less [] [] = False"
| "str_less [] (d # ds) = True"
| "str_less (c # cs) [] = False"
| "str_less (c # cs) (d # ds) = ((of_char c :: nat) < of_char d \<or> (c = d \<and> str_less cs ds))"

definition str_le :: "string \<Rightarrow> string \<Rightarrow> bool" where
  "str_le a b = (a = b \<or> str_less a b)"

definition more_recent :: "SearchResult \<Rightarrow> SearchResult \<Rightarrow> bool" where
  "more_recent x y =
     (case (published_at x, published_at y) of
        (Some p, Some q) \<Rightarrow> wall p > wall q
      | _ \<Rightarrow> False)"

definition spec_precedes :: "SearchResult \<Rightarrow> SearchResult \<Rightarrow> bool" where
  "spec_precedes x y =
     (score x > score y
      \<or> (score x = score y
          \<and> (more_recent x y \<or> (\<not> more_recent y x \<and> str_le (url x) (url y)))))"

text \<open>Items for the examples: a URL (also the title), a timestamp and a score.\<close>

definition item :: "string \<Rightarrow> datetime option \<Rightarrow> real \<Rightarrow> SearchResult" where
  "item u p s = \<lparr>title = u, url = u, snippet = [], source = ''hackernews'',
      published_at = p, score = s, sentiment = ''neutral''\<rparr>"

definition at_wall :: "real \<Rightarrow> datetime option" where
  "at_wall w = Some \<lparr>wall = w, tzinfo = None\<rparr>"

definition tie_pair :: "SearchResult list" where
  "tie_pair = [item ''b'' (at_wall 0) 0, item ''a'' (at_wall 0) 0]"

definition casing_items :: "SearchResult list" where
  "casing_items =
     [\<lparr>title = ''AI News'', url = ''http://e.org/1'', snippet = [], source = ''hackernews'',
       published_at = None, score = 5, sentiment = ''neutral''\<rparr>,
      \<lparr>title = ''ai news'', url = ''http://e.org/1'', snippet = [], source = ''arxiv'',
       published_at = None, score = 1, sentiment = ''neutral''\<rparr>,
      \<lparr>title = ''A.I. NEWS!'', url = ''http://e.org/2'', snippet = [], source = ''arxiv'',
       published_at = None, score = 2, sentiment = ''neutral''\<rparr>]"

definition hour_items :: "SearchResult list" where
  "hour_items =
     [item ''a'' None 0, item ''b'' (at_wall 8200) 0,
      item ''c'' (Some \<lparr>wall = 6400, tzinfo = Some 0\<rparr>) 0, item ''d'' (at_wall 6399) 0]"

text \<open>
  The instant a \<open>datetime\<close> stands for, in seconds of UTC: a reading with a zone is that
  much ahead of UTC, a reading without zone is local time, as \<open>datetime.now()\<close> and
  \<open>datetime.fromtimestamp\<close> give it, on a host whose zone is \<open>local_offset\<close> seconds
  ahead of UTC. The time elapsed since a timestamp is the difference of the two instants.
\<close>

definition utc_instant :: "int \<Rightarrow> datetime \<Rightarrow> real" where
  "utc_instant local_offset d =
     wall d - of_int (case tzinfo d of None \<Rightarrow> local_offset | Some z \<Rightarrow> z)"

definition elapsed :: "int \<Rightarrow> real \<Rightarrow> datetime \<Rightarrow> real" where
  "elapsed local_offset now d =
     utc_instant local_offset \<lparr>wall = now, tzinfo = None\<rparr> - utc_instant local_offset d"

text \<open>
  Two items published at the same instant, half an hour before the clock reading 20800
  of a host three hours ahead of UTC: one as the Reddit adapter stores it (local time, no
  zone), one as the arXiv adapter stores it (UTC, with its zone).
\<close>

definition reddit_half_hour :: SearchResult where
  "reddit_half_hour = \<lparr>title = ''r'', url = ''https://reddit.com/r/1'', snippet = [],
      source = ''reddit/r/artificial'', published_at = Some \<lparr>wall = 19000, tzinfo = None\<rparr>,
      score = 0, sentiment = ''neutral''\<rparr>"

definition arxiv_half_hour :: SearchResult where
  "arxiv_half_hour = \<lparr>title = ''a'', url = ''http://arxiv.org/abs/1'', snippet = [],
      source = ''arxiv'', published_at = Some \<lparr>wall = 8200, tzinfo = Some 0\<rparr>,
      score = 0, sentiment = ''neutral''\<rparr>"

definition reddit_failed :: adapters where
  "reddit_failed = \<lparr>search_reddit = Inl ClientError,
      search_hackernews = Inr [item ''h1'' (at_wall 0) 2], search_arxiv = Inr []\<rparr>"

definition one_failed :: adapters where
  "one_failed = \<lparr>search_reddit = Inr [item ''r1'' (at_wall 0) 1, item ''r2'' (at_wall 0) 3],
      search_hackernews = Inl TimeoutError, search_arxiv = Inr []\<rparr>"

section \<open>Properties of the verdict engine\<close>

lemmas eval_defs = claim_keywords_of_def split_def lower_def lower_char_def
  is_space_def mentions_def any_in_def confirm_words_def deny_words_def SUSPICIOUS_WORDS_def
  no_signals_def title_text_def dict_get_def detector_confirm_words_def
  detector_deny_words_def

lemma contains_sublist: "contains w t = sublist w t"
  by (induction t) (simp_all add: sublist_Cons_right)

lemma any_in_member: "w \<in> set ws \<Longrightarrow> contains w t \<Longrightarrow> any_in ws t"
  by (auto simp: any_in_def list_ex_iff)

lemma sentiment_step_eq:
  "sentiment_step K acc text =
     (if mentions K (lower text) then
        \<lparr>confirm_signals = confirm_signals acc + point (any_in confirm_words (lower text)) 2,
         deny_signals = deny_signals acc + point (any_in deny_words (lower text)) 2
            + point (any_in SUSPICIOUS_WORDS (lower text)) 1,
         total_mentions = total_mentions acc + 1\<rparr>
      else acc)"
  by (simp add: sentiment_step_def Let_def point_def)

text \<open>The three counters after the loop, whatever their values before it.\<close>

lemma foldl_total:
  "total_mentions (foldl (sentiment_step K) acc texts) =
     total_mentions acc + int (length (filter (\<lambda>t. mentions K (lower t)) texts))"
  by (induction texts arbitrary: acc) (simp_all add: sentiment_step_eq)

lemma foldl_confirm:
  "confirm_signals (foldl (sentiment_step K) acc texts) =
     confirm_signals acc
     + 2 * int (length (filter (\<lambda>t. mentions K (lower t) \<and> any_in confirm_words (lower t)) texts))"
  by (induction texts arbitrary: acc) (simp_all add: sentiment_step_eq point_def)

lemma foldl_deny:
  "deny_signals (foldl (sentiment_step K) acc texts) =
     deny_signals acc
     + 2 * int (length (filter (\<lambda>t. mentions K (lower t) \<and> any_in deny_words (lower t)) texts))
     + int (length (filter (\<lambda>t. mentions K (lower t) \<and> any_in SUSPICIOUS_WORDS (lower t)) texts))"
  by (induction texts arbitrary: acc) (simp_all add: sentiment_step_eq point_def)

lemma total_counted:
  "total_mentions (count_signals texts cl) = int (length (filter (counted cl) texts))"
  unfolding counted_def by (simp add: count_signals_def foldl_total no_signals_def)

lemma signals_nonneg:
  "0 \<le> confirm_signals (count_signals texts cl)" "0 \<le> deny_signals (count_signals texts cl)"
  by (simp_all add: count_signals_def foldl_confirm foldl_deny no_signals_def)

lemma no_counted_iff: "length (filter P xs) = 0 \<longleftrightarrow> \<not> list_ex P xs"
  by (induction xs) auto

text \<open>
  C1. For every claim and list of evidence texts: if no text contains a token of the
  claim, the verdict is \<open>unverified\<close> with confidence 0. Otherwise, with \<open>confirmSignal\<close>
  and \<open>denySignal\<close> the two counters at the end of the loop and \<open>countedItems\<close> the number
  of texts that contain a token: \<open>confirmSignal > 2 * denySignal\<close> gives \<open>true\<close> with
  confidence \<open>min (confirmSignal / countedItems) 1\<close>; else \<open>denySignal > 2 * confirmSignal\<close>
  gives \<open>false\<close> with confidence \<open>min (denySignal / countedItems) 1\<close>; else a positive
  signal gives \<open>partially_true\<close> with confidence 0.5; else the verdict is \<open>unverified\<close>
  with confidence 0.3. The confidence is always between 0 and 1.
\<close>

theorem analyze_sentiment_decision_rule:
  "analyze_sentiment texts cl =
     (let confirmSignal = confirm_signals (count_signals texts cl);
          denySignal = deny_signals (count_signals texts cl);
          countedItems = int (length (filter (counted cl) texts))
      in if \<not> list_ex (counted cl) texts then (''unverified'', 0)
         else if confirmSignal > 2 * denySignal
           then (''true'', min (of_int confirmSignal / of_int countedItems) 1)
         else if denySignal > 2 * confirmSignal
           then (''false'', min (of_int denySignal / of_int countedItems) 1)
         else if confirmSignal > 0 \<or> denySignal > 0 then (''partially_true'', 1 / 2)
         else (''unverified'', 3 / 10))
   \<and> 0 \<le> snd (analyze_sentiment texts cl) \<and> snd (analyze_sentiment texts cl) \<le> 1"
proof -
  have n: "(total_mentions (count_signals texts cl) = 0) = (\<not> list_ex (counted cl) texts)"
    using no_counted_iff [of "counted cl" texts] by (simp add: total_counted)
  have rule: "analyze_sentiment texts cl =
     (let confirmSignal = confirm_signals (count_signals texts cl);
          denySignal = deny_signals (count_signals texts cl);
          countedItems = int (length (filter (counted cl) texts))
      in if \<not> list_ex (counted cl) texts then (''unverified'', 0)
         else if confirmSignal > 2 * denySignal
           then (''true'', min (of_int confirmSignal / of_int countedItems) 1)
         else if denySignal > 2 * confirmSignal
           then (''false'', min (of_int denySignal / of_int countedItems) 1)
         else if confirmSignal > 0 \<or> denySignal > 0 then (''partially_true'', 1 / 2)
         else (''unverified'', 3 / 10))"
    unfolding analyze_sentiment_def Let_def n [symmetric] total_counted [symmetric]
    by (simp add: mult.commute)
  have c0: "0 \<le> confirm_signals (count_signals texts cl)"
    and d0: "0 \<le> deny_signals (count_signals texts cl)"
    by (rule signals_nonneg)+
  have t0: "0 \<le> total_mentions (count_signals texts cl)"
    by (simp add: total_counted)
  have q: "0 \<le> (of_int a :: real) / of_int b" if "0 \<le> a" "0 \<le> b" for a b :: int
    using that by simp
  have bound: "0 \<le> snd (analyze_sentiment texts cl) \<and> snd (analyze_sentiment texts cl) \<le> 1"
    unfolding analyze_sentiment_def Let_def
    using q [OF c0 t0] q [OF d0 t0] by (simp add: min_def)
  from rule bound show ?thesis by blast
qed

theorem analyze_sentiment_decision_rule_witness:
  "analyze_sentiment [''y confirmed''] ''x'' = (''unverified'', 0)
   \<and> analyze_sentiment [''X confirmed'', ''x official'', ''x announced''] ''x'' = (''true'', 1)
   \<and> analyze_sentiment [''x debunked'', ''x'', ''x'', ''x''] ''x'' = (''false'', 1 / 2)
   \<and> analyze_sentiment [''x confirmed'', ''x fake''] ''x'' = (''partially_true'', 1 / 2)
   \<and> analyze_sentiment [''x''] ''x'' = (''unverified'', 3 / 10)"
  using analyze_sentiment_decision_rule [of "[''y confirmed'']" "''x''"]
    analyze_sentiment_decision_rule [of "[''X confirmed'', ''x official'', ''x announced'']" "''x''"]
    analyze_sentiment_decision_rule [of "[''x debunked'', ''x'', ''x'', ''x'']" "''x''"]
    analyze_sentiment_decision_rule [of "[''x confirmed'', ''x fake'']" "''x''"]
    analyze_sentiment_decision_rule [of "[''x'']" "''x''"]
  by (simp add: counted_def count_signals_def sentiment_step_def Let_def eval_defs)

text \<open>
  C2, as the claim words it, fails: the text \<open>x confirmed official\<close> is counted for the
  claim \<open>x\<close> and matches two distinct confirming cues; the loop gives it 2 points, where
  two points for each matching cue would be 4.
\<close>

theorem per_cue_counterexample:
  "cue_matches confirm_words (lower two_cue_text) = 2
   \<and> confirm_signals (count_signals [two_cue_text] ''x'') = 2
   \<and> confirm_signals (foldl (per_cue_step (claim_keywords_of ''x'')) no_signals [two_cue_text]) = 4"
  by code_simp

text \<open>
  C2, amended. For every counted evidence item the loop adds 2 to \<open>confirm_signals\<close> if
  the item matches at least one confirming cue, 2 to \<open>deny_signals\<close> if it matches at
  least one denying cue and 1 to \<open>deny_signals\<close> if it matches at least one suspicious
  cue: once for each item, however many cues of the list match. An item that is not
  counted changes nothing. So at the end \<open>confirm_signals\<close> is twice the number of counted
  items with a confirming cue, and \<open>deny_signals\<close> is twice the number of counted items
  with a denying cue plus the number of counted items with a suspicious cue.
\<close>

theorem signal_accumulation_per_item:
  "sentiment_step K acc text =
     (if mentions K (lower text) then
        \<lparr>confirm_signals = confirm_signals acc + point (any_in confirm_words (lower text)) 2,
         deny_signals = deny_signals acc + point (any_in deny_words (lower text)) 2
            + point (any_in SUSPICIOUS_WORDS (lower text)) 1,
         total_mentions = total_mentions acc + 1\<rparr>
      else acc)
   \<and> confirm_signals (count_signals texts cl) =
       2 * int (length (filter (\<lambda>t. counted cl t \<and> any_in confirm_words (lower t)) texts))
   \<and> deny_signals (count_signals texts cl) =
       2 * int (length (filter (\<lambda>t. counted cl t \<and> any_in deny_words (lower t)) texts))
       + int (length (filter (\<lambda>t. counted cl t \<and> any_in SUSPICIOUS_WORDS (lower t)) texts))"
  unfolding counted_def
  by (simp add: sentiment_step_eq count_signals_def foldl_confirm foldl_deny no_signals_def)

theorem signal_accumulation_witness:
  "sentiment_step (claim_keywords_of ''x'') no_signals two_cue_text =
     \<lparr>confirm_signals = 2, deny_signals = 0, total_mentions = 1\<rparr>"
  using signal_accumulation_per_item [of "claim_keywords_of ''x''" no_signals two_cue_text "[]" "[]"]
  by (simp add: two_cue_text_def eval_defs point_def)

lemma contains_not_true: "contains ''not true'' t \<Longrightarrow> contains ''true'' t"
proof -
  assume "contains ''not true'' t"
  then have "sublist ''not true'' t" by (simp add: contains_sublist)
  moreover have "sublist ''true'' ''not true''"
    by (simp add: sublist_def) (rule exI [of _ "''not ''"], simp)
  ultimately have "sublist ''true'' t"
    using sublist_order.order_trans by blast
  then show ?thesis by (simp add: contains_sublist)
qed

text \<open>
  C10. The cue \<open>true\<close> is a substring of the cue \<open>not true\<close>. So for every counted text
  whose lower-case form contains \<open>not true\<close>, one pass of the loop adds 2 to
  \<open>confirm_signals\<close> and 2 to \<open>deny_signals\<close> (the point for a suspicious cue, if the text
  has one, comes on top, as for any item); and the contradiction detector puts a source
  whose lower-case title and text contain \<open>not true\<close> into the confirming group.
\<close>

theorem not_true_double_count:
  "(contains ''not true'' (lower text) \<and> mentions K (lower text) \<longrightarrow>
      confirm_signals (sentiment_step K acc text) = confirm_signals acc + 2
      \<and> deny_signals (sentiment_step K acc text) =
          deny_signals acc + 2 + point (any_in SUSPICIOUS_WORDS (lower text)) 1)
   \<and> (contains ''not true'' (lower (title_text s)) \<longrightarrow>
      group_step g s = g\<lparr>confirm_sources := confirm_sources g @ [s]\<rparr>)"
proof (intro conjI impI)
  assume "contains ''not true'' (lower text) \<and> mentions K (lower text)"
  then have a: "contains ''not true'' (lower text)" and m: "mentions K (lower text)"
    by simp_all
  have c: "any_in confirm_words (lower text)"
    by (rule any_in_member [OF _ contains_not_true [OF a]]) (simp add: confirm_words_def)
  have d: "any_in deny_words (lower text)"
    by (rule any_in_member [OF _ a]) (simp add: deny_words_def)
  show "confirm_signals (sentiment_step K acc text) = confirm_signals acc + 2"
    by (simp add: sentiment_step_eq m c point_def)
  show "deny_signals (sentiment_step K acc text) =
          deny_signals acc + 2 + point (any_in SUSPICIOUS_WORDS (lower text)) 1"
    by (simp add: sentiment_step_eq m d point_def)
next
  assume a: "contains ''not true'' (lower (title_text s))"
  have c: "any_in detector_confirm_words (lower (title_text s))"
    by (rule any_in_member [OF _ contains_not_true [OF a]]) (simp add: detector_confirm_words_def)
  show "group_step g s = g\<lparr>confirm_sources := confirm_sources g @ [s]\<rparr>"
    by (simp add: group_step_def c)
qed

theorem not_true_double_count_witness:
  "sentiment_step (claim_keywords_of ''x'') no_signals not_true_text =
      \<lparr>confirm_signals = 2, deny_signals = 2, total_mentions = 1\<rparr>
   \<and> confirm_sources (group_step \<lparr>confirm_sources = [], deny_sources = []\<rparr> not_true_item)
       = [not_true_item]"
proof -
  have a: "contains ''not true'' (lower not_true_text)"
    by (simp add: not_true_text_def lower_def lower_char_def)
  have m: "mentions (claim_keywords_of ''x'') (lower not_true_text)"
    by (simp add: not_true_text_def eval_defs)
  have s: "\<not> any_in SUSPICIOUS_WORDS (lower not_true_text)"
    by (simp add: not_true_text_def eval_defs)
  have t: "total_mentions (sentiment_step (claim_keywords_of ''x'') no_signals not_true_text) = 1"
    by (simp add: sentiment_step_def m Let_def no_signals_def)
  have b: "contains ''not true'' (lower (title_text not_true_item))"
    by (simp add: not_true_item_def eval_defs)
  from not_true_double_count [of not_true_text "claim_keywords_of ''x''" no_signals
      not_true_item "\<lparr>confirm_sources = [], deny_sources = []\<rparr>"] a m s t b
  show ?thesis by (simp add: point_def no_signals_def)
qed

text \<open>
  C3. Whenever the computed verdict is \<open>true\<close> or \<open>false\<close> and the computed confidence
  \<open>c\<close> is strictly below \<open>min_confidence\<close>, the result of \<open>check\<close> has the verdict
  \<open>unverified\<close>, its confidence is still \<open>c\<close>, and its explanation is the explanation
  generated for the computed verdict, which reports \<open>c\<close>, followed by the note that the
  confidence \<open>c\<close> is below the threshold.
\<close>

theorem threshold_downgrade:
  "analyze_sentiment (map title_text found) cl = (v, c) \<Longrightarrow> v = ''true'' \<or> v = ''false'' \<Longrightarrow>
   c < m \<Longrightarrow>
     verdict (check found now cl m) = ''unverified''
     \<and> confidence (check found now cl m) = c
     \<and> explanation (check found now cl m) =
         generate_explanation v c found (find_contradictions found cl)
           @ [Fragment Below_threshold [c, m]]
     \<and> (\<exists>t. generate_explanation v c found (find_contradictions found cl) = [Fragment t [c]])"
  by (auto simp: check_def Let_def generate_explanation_def)

lemma sixty_percent:
  "analyze_sentiment (map title_text sixty_percent_sources) ''x'' = (''true'', 6 / 10)"
  by (simp add: sixty_percent_sources_def analyze_sentiment_def count_signals_def
      sentiment_step_def Let_def eval_defs numeral_eq_Suc)

theorem threshold_downgrade_witness:
  "verdict (check sixty_percent_sources 0 ''x'' (9 / 10)) = ''unverified''
   \<and> confidence (check sixty_percent_sources 0 ''x'' (9 / 10)) = 6 / 10
   \<and> explanation (check sixty_percent_sources 0 ''x'' (9 / 10)) =
       [Fragment Confirmed_low [6 / 10], Fragment Below_threshold [6 / 10, 9 / 10]]"
  using threshold_downgrade [OF sixty_percent, of "9 / 10" 0]
  by (simp add: generate_explanation_def)

section \<open>Properties of the contradiction detector\<close>

text \<open>
  C9, as the claim words it, fails: a source with the title \<open>Confirmed\<close> and the text
  \<open>it was false\<close> matches a confirming cue and a denying cue, which the specification
  calls neutral; the detector counts it in the confirming group, and with one denying
  source beside it a contradiction record of one against one is emitted, with this source
  as the confirming sample.
\<close>

theorem both_cues_counterexample:
  "any_in detector_confirm_words (lower (title_text both_cues_item))
   \<and> any_in detector_deny_words (lower (title_text both_cues_item))
   \<and> spec_classify both_cues_item = Neutral
   \<and> confirm_sources (group_sources [both_cues_item, deny_only_item]) = [both_cues_item]
   \<and> find_contradictions [both_cues_item, deny_only_item] ''x'' =
       [\<lparr>ctype = ''conflicting_reports'', confirm_count = 1, deny_count = 1,
         sample_confirm = Some both_cues_item, sample_deny = Some deny_only_item\<rparr>]"
proof -
  have c: "any_in detector_confirm_words (lower (title_text both_cues_item))"
    by (simp add: both_cues_item_def eval_defs)
  have d: "any_in detector_deny_words (lower (title_text both_cues_item))"
    by (simp add: both_cues_item_def eval_defs)
  have c': "\<not> any_in detector_confirm_words (lower (title_text deny_only_item))"
    by (simp add: deny_only_item_def eval_defs)
  have d': "any_in detector_deny_words (lower (title_text deny_only_item))"
    by (simp add: deny_only_item_def eval_defs)
  show ?thesis
    by (simp add: c d c' d' spec_classify_def find_contradictions_def group_sources_def
        group_step_def first_or_none_def)
qed

lemma foldl_groups:
  "foldl group_step g srcs =
     \<lparr>confirm_sources = confirm_sources g
         @ filter (\<lambda>s. any_in detector_confirm_words (lower (title_text s))) srcs,
      deny_sources = deny_sources g
         @ filter (\<lambda>s. \<not> any_in detector_confirm_words (lower (title_text s))
                      \<and> any_in detector_deny_words (lower (title_text s))) srcs\<rparr>"
  by (induction srcs arbitrary: g) (simp_all add: group_step_def)

text \<open>
  C9, amended. The confirming group holds the sources whose title and text match at
  least one confirming cue, whether or not they match a denying cue as well; the denying
  group holds the sources that match at least one denying cue and no confirming cue; a
  source that matches neither is in neither group. The contradiction record, emitted when
  both groups are non-empty, carries the sizes of these two groups and the first source
  of each.
\<close>

theorem confirming_cue_takes_precedence:
  "confirm_sources (group_sources srcs) =
     filter (\<lambda>s. any_in detector_confirm_words (lower (title_text s))) srcs
   \<and> deny_sources (group_sources srcs) =
     filter (\<lambda>s. \<not> any_in detector_confirm_words (lower (title_text s))
                  \<and> any_in detector_deny_words (lower (title_text s))) srcs
   \<and> find_contradictions srcs cl =
     (if confirm_sources (group_sources srcs) \<noteq> [] \<and> deny_sources (group_sources srcs) \<noteq> []
      then [\<lparr>ctype = ''conflicting_reports'',
             confirm_count = length (confirm_sources (group_sources srcs)),
             deny_count = length (deny_sources (group_sources srcs)),
             sample_confirm = Some (hd (confirm_sources (group_sources srcs))),
             sample_deny = Some (hd (deny_sources (group_sources srcs)))\<rparr>]
      else [])"
  by (auto simp: group_sources_def foldl_groups find_contradictions_def Let_def first_or_none_def
      split: list.splits)

theorem confirming_cue_takes_precedence_witness:
  "confirm_sources (group_sources [both_cues_item, deny_only_item]) = [both_cues_item]
   \<and> deny_sources (group_sources [both_cues_item, deny_only_item]) = [deny_only_item]"
proof -
  have c: "any_in detector_confirm_words (lower (title_text both_cues_item))"
    by (simp add: both_cues_item_def eval_defs)
  have c': "\<not> any_in detector_confirm_words (lower (title_text deny_only_item))"
    by (simp add: deny_only_item_def eval_defs)
  have d': "any_in detector_deny_words (lower (title_text deny_only_item))"
    by (simp add: deny_only_item_def eval_defs)
  show ?thesis
    using confirming_cue_takes_precedence [of "[both_cues_item, deny_only_item]" "''x''"]
    by (simp add: c c' d')
qed

section \<open>Properties of the search aggregator\<close>

lemma age_eq: "age now p = now - wall p"
  by (simp add: age_def replace_tzinfo_none_def)

lemmas item_defs = item_def at_wall_def

text \<open>
  What the filter compares: the clock reading and the reading of the timestamp, whose
  zone, if it has one, is dropped. For the four horizons it keeps, in their order, the
  items with a \<open>published_at\<close> for which this difference is at most 3600, 86400, 604800
  and 2592000 seconds, and drops every item without \<open>published_at\<close>.
\<close>

lemma filter_by_freshness_readings:
  "filter_by_freshness now E ''hour'' =
     filter (\<lambda>r. case published_at r of None \<Rightarrow> False | Some p \<Rightarrow> now - wall p \<le> 3600) E
   \<and> filter_by_freshness now E ''day'' =
     filter (\<lambda>r. case published_at r of None \<Rightarrow> False | Some p \<Rightarrow> now - wall p \<le> 86400) E
   \<and> filter_by_freshness now E ''week'' =
     filter (\<lambda>r. case published_at r of None \<Rightarrow> False | Some p \<Rightarrow> now - wall p \<le> 604800) E
   \<and> filter_by_freshness now E ''month'' =
     filter (\<lambda>r. case published_at r of None \<Rightarrow> False | Some p \<Rightarrow> now - wall p \<le> 2592000) E"
  by (simp add: filter_by_freshness_def freshness_delta_def freshness_map_def
      is_fresh_def [abs_def] age_eq cong: option.case_cong)

text \<open>
  The difference of the readings is the elapsed time for a timestamp without zone; for
  a timestamp with a zone it is off by the distance between the host's zone and that zone.
\<close>

lemma age_without_zone: "tzinfo d = None \<Longrightarrow> age now d = elapsed local_offset now d"
  by (simp add: age_eq elapsed_def utc_instant_def)

lemma age_with_zone:
  "tzinfo d = Some z \<Longrightarrow> age now d = elapsed local_offset now d + (of_int local_offset - of_int z)"
  by (simp add: age_eq elapsed_def utc_instant_def)

text \<open>
  C6 is not met by the code. The claim keeps an item if and only if the time since
  \<open>published_at\<close> is at most the horizon. The arXiv adapter stores timestamps with the
  zone UTC (line 158), the clock is read as local time without zone (line 169), and line
  180 drops the zone of the timestamp instead of converting it. On a host three hours
  ahead of UTC, at the clock reading 20800, the Reddit item and the arXiv item below were
  both published 1800 seconds ago, within the hour; the filter keeps the first and drops
  the second, whose age it computes as 12600 seconds.
\<close>

theorem freshness_zone_dropped:
  "elapsed 10800 20800 \<lparr>wall = 19000, tzinfo = None\<rparr> = 1800
   \<and> elapsed 10800 20800 \<lparr>wall = 8200, tzinfo = Some 0\<rparr> = 1800
   \<and> (1800 :: real) \<le> freshness_delta ''hour''
   \<and> age 20800 \<lparr>wall = 8200, tzinfo = Some 0\<rparr> = 12600
   \<and> filter_by_freshness 20800 [reddit_half_hour, arxiv_half_hour] ''hour'' = [reddit_half_hour]"
  by (simp add: elapsed_def utc_instant_def age_eq filter_by_freshness_def freshness_delta_def
      freshness_map_def is_fresh_def reddit_half_hour_def arxiv_half_hour_def)

lemma is_fresh_mono: "d1 \<le> d2 \<Longrightarrow> is_fresh now d1 r \<Longrightarrow> is_fresh now d2 r"
  by (auto simp: is_fresh_def split: option.splits)

text \<open>
  C7. With the same clock reading, whenever the duration of horizon \<open>h1\<close> is less than
  the duration of horizon \<open>h2\<close>, every item of the list filtered with \<open>h1\<close> is in the
  list filtered with \<open>h2\<close>; and the durations grow from \<open>hour\<close> to \<open>day\<close> to \<open>week\<close> to
  \<open>month\<close>.
\<close>

theorem freshness_monotone:
  "(freshness_delta h1 < freshness_delta h2 \<longrightarrow>
      set (filter_by_freshness now E h1) \<subseteq> set (filter_by_freshness now E h2))
   \<and> freshness_delta ''hour'' < freshness_delta ''day''
   \<and> freshness_delta ''day'' < freshness_delta ''week''
   \<and> freshness_delta ''week'' < freshness_delta ''month''"
proof (intro conjI impI)
  assume "freshness_delta h1 < freshness_delta h2"
  then have "freshness_delta h1 \<le> freshness_delta h2" by simp
  then show "set (filter_by_freshness now E h1) \<subseteq> set (filter_by_freshness now E h2)"
    by (auto simp: filter_by_freshness_def intro: is_fresh_mono)
qed (simp_all add: freshness_delta_def freshness_map_def)

theorem freshness_monotone_witness:
  "freshness_delta ''hour'' < freshness_delta ''day''
   \<and> set (filter_by_freshness 10000 hour_items ''hour'')
       \<subseteq> set (filter_by_freshness 10000 hour_items ''day'')
   \<and> length (filter_by_freshness 10000 hour_items ''hour'') = 2
   \<and> length (filter_by_freshness 10000 hour_items ''day'') = 3"
proof -
  have lt: "freshness_delta ''hour'' < freshness_delta ''day''"
    by (simp add: freshness_delta_def freshness_map_def)
  have len: "length (filter_by_freshness 10000 hour_items ''hour'') = 2
      \<and> length (filter_by_freshness 10000 hour_items ''day'') = 3"
    by (simp add: filter_by_freshness_def freshness_delta_def freshness_map_def is_fresh_def
        age_eq hour_items_def item_defs)
  from freshness_monotone [of "''hour''" "''day''" 10000 hour_items] lt len
  show ?thesis by blast
qed

lemma dedup_loop_append:
  "dedup_loop su st u rs = u @ dedup_loop su st [] rs"
proof (induction rs arbitrary: su st u)
  case Nil
  then show ?case by simp
next
  case (Cons r rs)
  show ?case
    using Cons.IH [of "insert (url r) su" "insert (normalized_title r) st" "u @ [r]"]
      Cons.IH [of "insert (url r) su" "insert (normalized_title r) st" "[r]"]
      Cons.IH [of su st u]
    by simp
qed

lemma dedup_loop_Cons:
  "dedup_loop su st [] (r # rs) =
     (if url r \<in> su \<or> normalized_title r \<in> st then dedup_loop su st [] rs
      else r # dedup_loop (insert (url r) su) (insert (normalized_title r) st) [] rs)"
  using dedup_loop_append [of "insert (url r) su" "insert (normalized_title r) st" "[r]" rs]
  by simp

lemma dedup_loop_unique: "unique_from su st (dedup_loop su st [] rs)"
proof (induction rs arbitrary: su st)
  case Nil
  then show ?case by simp
next
  case (Cons r rs)
  then show ?case by (simp add: dedup_loop_Cons del: dedup_loop.simps)
qed

lemma dedup_loop_fixed: "unique_from su st rs \<Longrightarrow> dedup_loop su st [] rs = rs"
proof (induction rs arbitrary: su st)
  case Nil
  then show ?case by simp
next
  case (Cons r rs)
  then show ?case by (simp add: dedup_loop_Cons del: dedup_loop.simps)
qed

text \<open>
  C8. Running \<open>remove_duplicates\<close> on its own output changes nothing: the output has no
  URL twice and no normalized title twice, so the second run skips no item.
\<close>

theorem remove_duplicates_idempotent:
  "remove_duplicates (remove_duplicates X) = remove_duplicates X"
  unfolding remove_duplicates_def by (rule dedup_loop_fixed [OF dedup_loop_unique])

theorem remove_duplicates_idempotent_witness:
  "remove_duplicates (remove_duplicates casing_items) = [hd casing_items]"
  using remove_duplicates_idempotent [of casing_items]
  by (simp add: casing_items_def remove_duplicates_def normalized_title_def lower_def
      lower_char_def is_word_char_def)

lemma sorted_reverse_desc: "sorted_wrt (\<lambda>x y. k x \<ge> k y) (sorted_reverse k xs)"
proof -
  have "sorted (map k (sort_key k (rev xs)))" by (rule sorted_sort_key)
  then have "sorted_wrt (\<lambda>x y. k x \<le> k y) (sort_key k (rev xs))"
    by (simp add: sorted_map)
  then show ?thesis by (simp add: sorted_reverse_def sorted_wrt_rev)
qed

lemma sorted_reverse_stable:
  "filter (\<lambda>x. k x = v) (sorted_reverse k xs) = filter (\<lambda>x. k x = v) xs"
proof -
  have "filter (\<lambda>x. k x = v) (sort_key k (rev xs)) = filter (\<lambda>x. k x = v) (rev xs)"
    by (rule sort_key_stable)
  then have "rev (filter (\<lambda>x. k x = v) (sort_key k (rev xs))) = filter (\<lambda>x. k x = v) xs"
    by (simp add: rev_filter)
  then show ?thesis by (simp add: sorted_reverse_def rev_filter)
qed

lemma mset_sorted_reverse: "mset (sorted_reverse k xs) = mset xs"
  by (simp add: sorted_reverse_def)

lemma rank_tie_pair:
  "rank_results 0 tie_pair = [item ''b'' (at_wall 0) 100, item ''a'' (at_wall 0) 100]"
  by (simp add: tie_pair_def rank_results_def sorted_reverse_def rescore_def item_defs age_eq)

text \<open>
  C4, as the claim words it, fails: two items with the same score and the same
  \<open>published_at\<close>, given in the order of the URLs \<open>b\<close>, \<open>a\<close>, come out with equal computed
  scores and in the order \<open>b\<close>, \<open>a\<close>; the tie is not broken by the URL.
\<close>

theorem rank_tie_counterexample:
  "map score (rank_results 0 tie_pair) = [100, 100]
   \<and> map published_at (rank_results 0 tie_pair) = [at_wall 0, at_wall 0]
   \<and> map url (rank_results 0 tie_pair) = [''b'', ''a'']
   \<and> \<not> str_le ''b'' ''a''
   \<and> \<not> sorted_wrt spec_precedes (rank_results 0 tie_pair)"
proof -
  have le: "\<not> str_le ''b'' ''a''"
    by (simp add: str_le_def)
  show ?thesis
    unfolding rank_tie_pair using le
    by (simp add: item_defs spec_precedes_def more_recent_def)
qed

text \<open>
  C4, amended. For every input list the output of the ranker holds the rescored items
  of the input, sorted in descending order of the computed score, and items with equal
  computed scores keep the order they have in the input; so the output is determined by
  the input sequence and the clock reading.
\<close>

theorem rank_results_stable_descending:
  "sorted_wrt (\<lambda>x y. score x \<ge> score y) (rank_results now rs)
   \<and> mset (rank_results now rs) = mset (map (rescore now) rs)
   \<and> (\<forall>v. filter (\<lambda>x. score x = v) (rank_results now rs) =
            filter (\<lambda>x. score x = v) (map (rescore now) rs))"
  unfolding rank_results_def
  by (simp add: sorted_reverse_desc sorted_reverse_stable mset_sorted_reverse)

theorem rank_results_stable_descending_witness:
  "rank_results 0 [item ''b'' (at_wall 0) 0, item ''c'' (at_wall 0) 7, item ''a'' (at_wall 0) 0] =
     [item ''c'' (at_wall 0) 107, item ''b'' (at_wall 0) 100, item ''a'' (at_wall 0) 100]"
  using rank_results_stable_descending
    [of 0 "[item ''b'' (at_wall 0) 0, item ''c'' (at_wall 0) 7, item ''a'' (at_wall 0) 0]"]
  by (simp add: rank_results_def sorted_reverse_def rescore_def item_defs age_eq)

lemma extend_lists_concat: "extend_lists acc os = acc @ concat (map evidence_of os)"
  by (induction acc os rule: extend_lists.induct) simp_all

text \<open>
  C5. Whatever each of the three adapters gives, \<open>search\<close> returns a list and raises
  nothing: the evidence of the enabled adapters that returned, in the order Reddit,
  HackerNews, arXiv, then filtered, deduplicated, ranked and cut to the requested length;
  an adapter that failed contributes no evidence. In particular, when the Reddit adapter
  returns \<open>xs\<close> and the HackerNews adapter fails, the outcome is the one for \<open>xs\<close> alone,
  the same as if the HackerNews adapter had returned the empty list.
\<close>

theorem adapter_failure_isolation:
  "search ad now1 now2 srcs f n =
     slice_to n (rank_results now2 (remove_duplicates
       (filter_by_freshness now1
          ((if ''reddit'' \<in> set srcs then evidence_of (search_reddit ad) else [])
           @ (if ''hackernews'' \<in> set srcs then evidence_of (search_hackernews ad) else [])
           @ (if ''arxiv'' \<in> set srcs then evidence_of (search_arxiv ad) else [])) f)))
   \<and> (search_reddit ad = Inr xs \<and> search_hackernews ad = Inl e
        \<and> ''reddit'' \<in> set srcs \<and> ''hackernews'' \<in> set srcs \<and> ''arxiv'' \<notin> set srcs \<longrightarrow>
      search ad now1 now2 srcs f n =
        slice_to n (rank_results now2 (remove_duplicates (filter_by_freshness now1 xs f)))
      \<and> search ad now1 now2 srcs f n =
          search (ad\<lparr>search_hackernews := Inr []\<rparr>) now1 now2 srcs f n)"
  by (auto simp: search_def Let_def extend_lists_concat gather_tasks_def)

theorem adapter_failure_isolation_witness:
  "search one_failed 10 20 [''reddit'', ''hackernews''] ''week'' 10 =
     [item ''r2'' (at_wall 0) (102998 / 1000), item ''r1'' (at_wall 0) (100998 / 1000)]
   \<and> search reddit_failed 10 20 [''reddit'', ''hackernews''] ''week'' 10 =
     [item ''h1'' (at_wall 0) (101998 / 1000)]"
proof -
  have r: "search_reddit one_failed = Inr [item ''r1'' (at_wall 0) 1, item ''r2'' (at_wall 0) 3]"
    and h: "search_hackernews one_failed = Inl TimeoutError"
    by (simp_all add: one_failed_def)
  have srcs: "''reddit'' \<in> set [''reddit'', ''hackernews'']
      \<and> ''hackernews'' \<in> set [''reddit'', ''hackernews'']
      \<and> ''arxiv'' \<notin> set [''reddit'', ''hackernews'']"
    by simp
  have "search one_failed 10 20 [''reddit'', ''hackernews''] ''week'' 10 =
      slice_to 10 (rank_results 20 (remove_duplicates (filter_by_freshness 10
        [item ''r1'' (at_wall 0) 1, item ''r2'' (at_wall 0) 3] ''week'')))"
    using adapter_failure_isolation [of one_failed 10 20 "[''reddit'', ''hackernews'']" "''week''" 10
        "[item ''r1'' (at_wall 0) 1, item ''r2'' (at_wall 0) 3]" TimeoutError] r h srcs
    by blast
  then have first: "search one_failed 10 20 [''reddit'', ''hackernews''] ''week'' 10 =
     [item ''r2'' (at_wall 0) (102998 / 1000), item ''r1'' (at_wall 0) (100998 / 1000)]"
    by (simp add: slice_to_def rank_results_def sorted_reverse_def rescore_def
        remove_duplicates_def normalized_title_def lower_def lower_char_def is_word_char_def
        filter_by_freshness_def freshness_delta_def freshness_map_def is_fresh_def age_eq
        item_defs)
  have "search reddit_failed 10 20 [''reddit'', ''hackernews''] ''week'' 10 =
      slice_to 10 (rank_results 20 (remove_duplicates (filter_by_freshness 10
        [item ''h1'' (at_wall 0) 2] ''week'')))"
    using adapter_failure_isolation [of reddit_failed 10 20 "[''reddit'', ''hackernews'']" "''week''" 10]
    by (simp add: reddit_failed_def)
  then have second: "search reddit_failed 10 20 [''reddit'', ''hackernews''] ''week'' 10 =
     [item ''h1'' (at_wall 0) (101998 / 1000)]"
    by (simp add: slice_to_def rank_results_def sorted_reverse_def rescore_def
        remove_duplicates_def normalized_title_def lower_def lower_char_def is_word_char_def
        filter_by_freshness_def freshness_delta_def freshness_map_def is_fresh_def age_eq
        item_defs)
  from first second show ?thesis by simp
qed

end
